theory Spec2Isabelle
  imports Complex_Main "HOL-Library.AList"
begin

section \<open>Data model (types.ts)\<close>

text \<open>
  Optional properties of the TypeScript interfaces are \<open>option\<close> values: \<open>None\<close> is
  \<open>undefined\<close>. Numbers that come from JSON documents or from byte lengths are modelled as
  \<open>int\<close>; the result of \<open>Number.parseInt\<close>, which may be \<open>NaN\<close>, has the type \<open>number\<close>.
\<close>

datatype number = Num int | NaN

datatype JsonValue =
    JString string
  | JNumber int
  | JBoolean bool
  | JNull
  | JArray "JsonValue list"
  | JObject "(string \<times> JsonValue) list"

record PluginFileRef =
  path :: "string option"
  raw_url :: "string option"
  sha :: "string option"
  size_f :: "int option"

record PluginRepoRef =
  name :: "string option"
  full_name :: "string option"
  html_url :: "string option"
  description :: "string option"
  stargazers_count :: "int option"
  archived :: "bool option"

datatype resource_id = RidString string | RidNumber int

record IndexedPlugin =
  plugin_name :: "string option"
  plugin_author :: "string option"
  plugin_version :: "string option"
  plugin_description :: "string option"
  plugin_resource_id :: "resource_id option"
  categories :: "string list option"
  file_ref :: PluginFileRef
  repository :: "PluginRepoRef option"
  extra :: "(string \<rightharpoonup> JsonValue) option"

record PluginIndex =
  generated_at :: string
  query :: "string option"
  count :: int
  items :: "IndexedPlugin list"

record CachedEntry =
  key :: string
  etag_c :: "string option"
  lastModified_c :: "string option"
  contentHash :: "string option"
  fileSha :: "string option"
  fileSize :: "int option"
  notifiedAt :: string

text \<open>
  The \<open>entries\<close> object of the cache file keeps its keys in insertion order; it is an
  association list that is only ever extended with \<^const>\<open>AList.update\<close>.
\<close>

record StateFile =
  entries :: "(string \<times> CachedEntry) list"
  version :: int
  updatedAt :: string

text \<open>JavaScript truthiness of an optional string: defined and not the empty string.\<close>

definition truthy :: "string option \<Rightarrow> bool" where
  "truthy s = (case s of None \<Rightarrow> False | Some x \<Rightarrow> x \<noteq> [])"

text \<open>The nullish coalescing operator \<open>a ?? b\<close>.\<close>

definition nullish :: "'a option \<Rightarrow> 'a option \<Rightarrow> 'a option" where
  "nullish a b = (case a of None \<Rightarrow> b | Some x \<Rightarrow> Some x)"

section \<open>Key derivation (utils/plugin-key.ts)\<close>

definition pluginKey :: "IndexedPlugin \<Rightarrow> string" where
  "pluginKey plugin =
     (let repo = (case nullish (Option.bind (repository plugin) full_name)
                               (Option.bind (repository plugin) name) of
                    None \<Rightarrow> ''repository'' | Some r \<Rightarrow> r);
          pth = (case path (file_ref plugin) of None \<Rightarrow> ''file'' | Some p \<Rightarrow> p)
      in case raw_url (file_ref plugin) of
           None \<Rightarrow> repo @ ''::'' @ pth
         | Some u \<Rightarrow> if u \<noteq> [] then u else repo @ ''::'' @ pth)"

section \<open>Merge engine (mergeField, mergePlugin, mergeIndices)\<close>

text \<open>
  \<open>mergeField\<close> is generic in TypeScript; its comparison \<open>secondary === ""\<close> is passed as
  the predicate \<open>isEmpty\<close>, which is \<open>emptyString\<close> for the string fields and \<open>emptyRid\<close> for
  the resource id (a string or a number). The typed records hold no \<open>null\<close>, so its test for
  \<open>null\<close> is the one for \<open>undefined\<close>.
\<close>

definition emptyString :: "string \<Rightarrow> bool" where
  "emptyString s = (s = [])"

definition emptyRid :: "resource_id \<Rightarrow> bool" where
  "emptyRid r = (r = RidString [])"

definition mergeField :: "('a \<Rightarrow> bool) \<Rightarrow> 'a option \<Rightarrow> 'a option \<Rightarrow> 'a option" where
  "mergeField isEmpty primary secondary =
     (case secondary of
        None \<Rightarrow> primary
      | Some s \<Rightarrow> if isEmpty s then primary else Some s)"

text \<open>Object spread \<open>{ ...a, ...b }\<close> of two optional objects: an absent one adds nothing.\<close>

definition spread :: "(string \<rightharpoonup> JsonValue) option \<Rightarrow> (string \<rightharpoonup> JsonValue)" where
  "spread m = (case m of None \<Rightarrow> Map.empty | Some f \<Rightarrow> f)"

definition mergePlugin :: "IndexedPlugin \<Rightarrow> IndexedPlugin \<Rightarrow> IndexedPlugin" where
  "mergePlugin existing incoming =
     \<lparr> plugin_name = mergeField emptyString (plugin_name existing) (plugin_name incoming),
       plugin_author = mergeField emptyString (plugin_author existing) (plugin_author incoming),
       plugin_version = mergeField emptyString (plugin_version existing) (plugin_version incoming),
       plugin_description =
         mergeField emptyString (plugin_description existing) (plugin_description incoming),
       plugin_resource_id =
         mergeField emptyRid (plugin_resource_id existing) (plugin_resource_id incoming),
       categories =
         (case categories incoming of
            Some (c # cs) \<Rightarrow> Some (c # cs)
          | _ \<Rightarrow> categories existing),
       file_ref =
         (if truthy (raw_url (file_ref incoming)) then file_ref incoming else file_ref existing),
       repository = nullish (repository incoming) (repository existing),
       extra = Some (spread (extra existing) ++ spread (extra incoming)) \<rparr>"

text \<open>
  The \<open>Map\<close> of \<open>mergeIndices\<close> iterates in insertion order and \<open>Map.set\<close> on a key that
  is already there keeps its position: this is \<^const>\<open>AList.update\<close> on an association list.
  \<open>seedBase\<close> is the first loop (over the base catalog), \<open>mergeCrawled\<close> the second.
\<close>

definition seedBase :: "IndexedPlugin list \<Rightarrow> (string \<times> IndexedPlugin) list" where
  "seedBase oxide_items =
     foldl (\<lambda>merged plugin. AList.update (pluginKey plugin) plugin merged) [] oxide_items"

definition mergeStep :: "(string \<times> IndexedPlugin) list \<Rightarrow> IndexedPlugin \<Rightarrow> (string \<times> IndexedPlugin) list" where
  "mergeStep merged plugin =
     (let k = pluginKey plugin
      in AList.update k
           (case map_of merged k of
              Some existing \<Rightarrow> mergePlugin existing plugin
            | None \<Rightarrow> plugin)
           merged)"

definition mergeCrawled ::
  "(string \<times> IndexedPlugin) list \<Rightarrow> IndexedPlugin list \<Rightarrow> (string \<times> IndexedPlugin) list" where
  "mergeCrawled merged crawled_items = foldl mergeStep merged crawled_items"

definition mergedMap :: "PluginIndex \<Rightarrow> PluginIndex \<Rightarrow> (string \<times> IndexedPlugin) list" where
  "mergedMap oxide crawled = mergeCrawled (seedBase (items oxide)) (items crawled)"

text \<open>
  \<open>now\<close> is the clock reading \<open>new Date().toISOString()\<close> and \<open>numberToString\<close> the
  conversion a template literal applies to a number.
\<close>

definition mergeIndices :: "string \<Rightarrow> (int \<Rightarrow> string) \<Rightarrow> PluginIndex \<Rightarrow> PluginIndex \<Rightarrow> PluginIndex" where
  "mergeIndices now numberToString oxide crawled =
     (let its = map snd (mergedMap oxide crawled)
      in \<lparr> generated_at = now,
           query = Some (''Merged oxide('' @ numberToString (count oxide) @ '') + crawled(''
                         @ numberToString (count crawled) @ '')''),
           count = int (length its),
           items = its \<rparr>)"

section \<open>Delta engine (hasReliableMarkers, unchanged, computeDelta) and headMeta\<close>

datatype DiffReason = New | Updated

record DiffMetadata =
  etag :: "string option"
  lastModified :: "string option"
  contentLength :: "number option"
  requiresContentHashCheck :: bool

record DiffItem =
  plugin_d :: IndexedPlugin
  reason :: DiffReason
  cacheKey :: string
  metadata :: DiffMetadata
  previous :: "CachedEntry option"

text \<open>What \<open>headMeta\<close> resolves to; \<open>{}\<close> is \<open>noMeta\<close>.\<close>

record HeadMeta =
  etag_h :: "string option"
  lastModified_h :: "string option"
  contentLength_h :: "number option"
  contentType_h :: "string option"

definition noMeta :: HeadMeta where
  "noMeta = \<lparr> etag_h = None, lastModified_h = None, contentLength_h = None, contentType_h = None \<rparr>"

datatype http_error = HttpError

definition normalizeRawUrl :: "string \<Rightarrow> string" where
  "normalizeRawUrl rawUrl = concat (map (\<lambda>c. if c = CHR ''#'' then ''%23'' else [c]) rawUrl)"

text \<open>
  The transport's \<open>head\<close> is a parameter: for a URL it either rejects or resolves to the
  normalised response headers (the status it also returns is not read). \<open>parseInt\<close> stands for
  \<open>Number.parseInt(_, 10)\<close>.
\<close>

definition headMeta ::
  "(string \<Rightarrow> http_error + (string \<rightharpoonup> string)) \<Rightarrow> (string \<Rightarrow> number) \<Rightarrow> string \<Rightarrow> HeadMeta" where
  "headMeta head parseInt rawUrl =
     (case head (normalizeRawUrl rawUrl) of
        Inl err \<Rightarrow> noMeta
      | Inr headers \<Rightarrow>
          \<lparr> etag_h = headers ''etag'',
            lastModified_h = headers ''last-modified'',
            contentLength_h =
              (case headers ''content-length'' of
                 None \<Rightarrow> None
               | Some v \<Rightarrow> if v \<noteq> [] then Some (parseInt v) else None),
            contentType_h = headers ''content-type'' \<rparr>)"

definition hasReliableMarkers :: "DiffMetadata \<Rightarrow> IndexedPlugin \<Rightarrow> bool" where
  "hasReliableMarkers meta plugin =
     (truthy (etag meta) \<or> truthy (lastModified meta) \<or> truthy (sha (file_ref plugin)))"

definition unchanged :: "DiffMetadata \<Rightarrow> IndexedPlugin \<Rightarrow> CachedEntry \<Rightarrow> bool" where
  "unchanged meta plugin prev =
     (if truthy (etag meta) \<and> truthy (etag_c prev) \<and> etag meta = etag_c prev then True
      else if truthy (lastModified meta) \<and> truthy (lastModified_c prev)
              \<and> lastModified meta = lastModified_c prev then True
      else if truthy (sha (file_ref plugin)) \<and> truthy (fileSha prev)
              \<and> sha (file_ref plugin) = fileSha prev then True
      else if contentLength meta \<noteq> None \<and> fileSize prev \<noteq> None
              \<and> contentLength meta = map_option Num (fileSize prev) then True
      else if size_f (file_ref plugin) \<noteq> None \<and> fileSize prev \<noteq> None
              \<and> size_f (file_ref plugin) = fileSize prev then True
      else False)"

text \<open>\<open>plugin.file.raw_url ? await headMeta(plugin.file.raw_url) : {}\<close>\<close>

definition probe ::
  "(string \<Rightarrow> http_error + (string \<rightharpoonup> string)) \<Rightarrow> (string \<Rightarrow> number) \<Rightarrow> IndexedPlugin \<Rightarrow> HeadMeta" where
  "probe head parseInt plugin =
     (case raw_url (file_ref plugin) of
        None \<Rightarrow> noMeta
      | Some u \<Rightarrow> if u \<noteq> [] then headMeta head parseInt u else noMeta)"

definition baseMetadata :: "HeadMeta \<Rightarrow> IndexedPlugin \<Rightarrow> DiffMetadata" where
  "baseMetadata meta plugin =
     \<lparr> etag = etag_h meta,
       lastModified = lastModified_h meta,
       contentLength = nullish (contentLength_h meta) (map_option Num (size_f (file_ref plugin))),
       requiresContentHashCheck = False \<rparr>"

text \<open>
  The body that \<open>computeDelta\<close> runs for one record; \<open>None\<close> is the \<open>null\<close> of an unchanged
  record. Progress logging is left out.
\<close>

definition classify ::
  "(string \<Rightarrow> http_error + (string \<rightharpoonup> string)) \<Rightarrow> (string \<Rightarrow> number) \<Rightarrow>
   (string \<rightharpoonup> CachedEntry) \<Rightarrow> IndexedPlugin \<Rightarrow> DiffItem option" where
  "classify head parseInt cache plugin =
     (let k = pluginKey plugin
      in case cache k of
           None \<Rightarrow>
             Some \<lparr> plugin_d = plugin, reason = New, cacheKey = k,
                    metadata = baseMetadata (probe head parseInt plugin) plugin,
                    previous = None \<rparr>
         | Some prev \<Rightarrow>
             (let baseMeta = baseMetadata (probe head parseInt plugin) plugin;
                  reliable = hasReliableMarkers baseMeta plugin;
                  meta = baseMeta\<lparr> requiresContentHashCheck := \<not> reliable \<rparr>
              in if \<not> reliable then
                   Some \<lparr> plugin_d = plugin, reason = Updated, cacheKey = k,
                          metadata = meta, previous = Some prev \<rparr>
                 else if unchanged meta plugin prev then None
                 else
                   Some \<lparr> plugin_d = plugin, reason = Updated, cacheKey = k,
                          metadata = meta, previous = Some prev \<rparr>))"

text \<open>
  The probes run concurrently and the transport may answer each of them differently, so
  the transport is indexed by the position of the record in \<open>plugins\<close>. \<open>Promise.all\<close> keeps
  the input order and the final \<open>filter\<close> drops the \<open>null\<close>s.
\<close>

definition computeDelta ::
  "(nat \<Rightarrow> string \<Rightarrow> http_error + (string \<rightharpoonup> string)) \<Rightarrow> (string \<Rightarrow> number) \<Rightarrow>
   IndexedPlugin list \<Rightarrow> (string \<rightharpoonup> CachedEntry) \<Rightarrow> DiffItem list" where
  "computeDelta head parseInt plugins cache =
     List.map_filter (\<lambda>(i, plugin). classify (head i) parseInt cache plugin)
       (zip [0..<length plugins] plugins)"

section \<open>Configuration (config.ts)\<close>

definition STATE_VERSION :: int where
  "STATE_VERSION = 1"

text \<open>The values read from the environment are a parameter of the functions that use them.\<close>

record Config =
  WEBHOOK_URL :: string
  MAX_ATTACHMENT_BYTES :: int
  ONLY_CS_ATTACHMENTS :: bool

section \<open>State cache (class StateCache)\<close>

definition EMPTY_STATE :: StateFile where
  "EMPTY_STATE = \<lparr> entries = [], version = STATE_VERSION, updatedAt = [] \<rparr>"

text \<open>
  A file on disk is absent, cannot be read or parsed, holds the JSON document \<open>null\<close>, or
  holds a document that the cast \<open>as StateFile\<close> of \<open>load\<close> takes for a snapshot.
  \<open>writeJson\<close> followed by \<open>readJson\<close> gives back the snapshot written. The disk has the
  cache file \<open>STATE.PATH\<close> and the temporary file beside it.
\<close>

datatype disk_file = Absent | Unreadable | NullDocument | Stored StateFile

record Disk =
  canonical :: disk_file
  temp :: disk_file

datatype cache_error = ReadFailed | TypeError | WriteFailed | MoveFailed

datatype fs_outcome = FsOk | WriteFails | MoveFails

record StateCache =
  state :: StateFile

definition newStateCache :: StateCache where
  "newStateCache = \<lparr> state = EMPTY_STATE \<rparr>"

definition pathExists :: "disk_file \<Rightarrow> bool" where
  "pathExists f = (f \<noteq> Absent)"

definition readJson :: "disk_file \<Rightarrow> cache_error + StateFile option" where
  "readJson f =
     (case f of
        Absent \<Rightarrow> Inl ReadFailed
      | Unreadable \<Rightarrow> Inl ReadFailed
      | NullDocument \<Rightarrow> Inr None
      | Stored s \<Rightarrow> Inr (Some s))"

text \<open>
  \<open>load\<close>: the inner \<open>case\<close> is the body of the \<open>try\<close> block (reading \<open>parsed.version\<close> of
  \<open>null\<close> throws a TypeError), the outer one its \<open>catch\<close>. \<open>Inl\<close> would be a rejected promise.
\<close>

definition load :: "Disk \<Rightarrow> StateCache \<Rightarrow> cache_error + StateCache" where
  "load dsk this =
     (if \<not> pathExists (canonical dsk) then Inr (this\<lparr> state := EMPTY_STATE \<rparr>)
      else
        (case (case readJson (canonical dsk) of
                 Inl err \<Rightarrow> Inl err
               | Inr None \<Rightarrow> Inl TypeError
               | Inr (Some parsed) \<Rightarrow>
                   if version parsed \<noteq> STATE_VERSION then Inr (this\<lparr> state := EMPTY_STATE \<rparr>)
                   else Inr (this\<lparr> state := parsed \<rparr>)) of
           Inl err \<Rightarrow> Inr (this\<lparr> state := EMPTY_STATE \<rparr>)
         | Inr loaded \<Rightarrow> Inr loaded))"

definition get_entry :: "string \<Rightarrow> StateCache \<Rightarrow> CachedEntry option" where
  "get_entry k this = map_of (entries (state this)) k"

definition set_entry :: "CachedEntry \<Rightarrow> StateCache \<Rightarrow> StateCache" where
  "set_entry entry this =
     this\<lparr> state := (state this)\<lparr> entries := AList.update (key entry) entry (entries (state this)) \<rparr> \<rparr>"

text \<open>
  \<open>save\<close>: \<open>now\<close> is the clock reading, \<open>outcome\<close> says whether writing the temporary file
  and moving it onto the cache file succeed. The result is the error thrown, if any, the
  disk and the instance afterwards.
\<close>

definition save ::
  "string \<Rightarrow> fs_outcome \<Rightarrow> Disk \<Rightarrow> StateCache \<Rightarrow> cache_error option \<times> Disk \<times> StateCache" where
  "save now outcome dsk this =
     (let payload = (state this)\<lparr> updatedAt := now \<rparr>
      in case outcome of
           WriteFails \<Rightarrow> (Some WriteFailed, dsk\<lparr> temp := Unreadable \<rparr>, this)
         | MoveFails \<Rightarrow> (Some MoveFailed, dsk\<lparr> temp := Stored payload \<rparr>, this)
         | FsOk \<Rightarrow>
             (None, dsk\<lparr> canonical := Stored payload, temp := Absent \<rparr>, this\<lparr> state := payload \<rparr>))"

definition clear ::
  "string \<Rightarrow> fs_outcome \<Rightarrow> Disk \<Rightarrow> StateCache \<Rightarrow> cache_error option \<times> Disk \<times> StateCache" where
  "clear now outcome dsk this = save now outcome dsk (this\<lparr> state := EMPTY_STATE \<rparr>)"

definition stats :: "StateCache \<Rightarrow> nat \<times> string" where
  "stats this = (length (entries (state this)), updatedAt (state this))"

definition entries_of :: "StateCache \<Rightarrow> CachedEntry list" where
  "entries_of this = map snd (entries (state this))"

text \<open>
  The field \<open>state\<close> is private: an instance starts from \<open>EMPTY_STATE\<close> and changes only
  through its own methods. \<open>reachable\<close> holds of the instances that can arise so.
\<close>

inductive reachable :: "StateCache \<Rightarrow> bool" where
  fresh: "reachable newStateCache"
| loaded: "reachable this \<Longrightarrow> load dsk this = Inr this' \<Longrightarrow> reachable this'"
| entry_set: "reachable this \<Longrightarrow> reachable (set_entry entry this)"
| saved: "reachable this \<Longrightarrow> save now outcome dsk this = (err, dsk', this') \<Longrightarrow> reachable this'"
| cleared: "reachable this \<Longrightarrow> clear now outcome dsk this = (err, dsk', this') \<Longrightarrow> reachable this'"

section \<open>Webhook send (sendPluginWebhook)\<close>

definition MAX_WEBHOOK_ATTEMPTS :: nat where
  "MAX_WEBHOOK_ATTEMPTS = 5"

type_synonym buffer = string

record AttachmentPayload =
  name_a :: string
  buffer :: buffer

text \<open>
  What the \<open>catch\<close> of the send loop reads of a rejection: \<open>response?.status\<close> and
  \<open>response?.data?.retry_after\<close> (seconds, possibly fractional; the rational is the value
  of the double). A network error has neither.
\<close>

record AxiosError =
  status :: "int option"
  retry_after :: "rat option"

datatype webhook_error = NotConfigured | Rejected AxiosError | RetriesExhausted

text \<open>
  The request body is a multipart form (embed, file name, file content) or the JSON embed
  alone. The embed itself, built by \<open>buildEmbed\<close>, is a parameter of type \<open>'e\<close>. The trace of
  a call lists its requests, each with its attempt index, and its sleeps in milliseconds.
\<close>

datatype 'e payload = Multipart 'e string buffer | JsonBody 'e

datatype 'e event = Post nat "'e payload" | Sleep int

fun isPost :: "'e event \<Rightarrow> bool" where
  "isPost (Post n body) = True"
| "isPost (Sleep ms) = False"

text \<open>\<open>toLowerCase\<close> on the ASCII letters, which is all that a test for the suffix \<open>.cs\<close> reads.\<close>

definition toLowerCase :: "string \<Rightarrow> string" where
  "toLowerCase s =
     map (\<lambda>c. case map_of (zip ''ABCDEFGHIJKLMNOPQRSTUVWXYZ'' ''abcdefghijklmnopqrstuvwxyz'') c of
                 None \<Rightarrow> c
               | Some lower \<Rightarrow> lower) s"

definition endsWith :: "string \<Rightarrow> string \<Rightarrow> bool" where
  "endsWith s suffix =
     (length suffix \<le> length s \<and> drop (length s - length suffix) s = suffix)"

definition attachmentAllowed :: "Config \<Rightarrow> AttachmentPayload \<Rightarrow> bool" where
  "attachmentAllowed cfg attachment =
     (if int (length (buffer attachment)) > MAX_ATTACHMENT_BYTES cfg then False
      else if ONLY_CS_ATTACHMENTS cfg \<and> \<not> endsWith (toLowerCase (name_a attachment)) ''.cs''
        then False
      else True)"

text \<open>
  The \<open>for\<close> loop of \<open>sendPluginWebhook\<close> from attempt \<open>attempt\<close> on. \<open>post\<close> is the HTTP
  client: \<open>post n body\<close> is \<open>None\<close> when request \<open>n\<close> resolves and the rejection otherwise.
  \<open>toMillis\<close> stands for \<open>Math.ceil(retryAfterSeconds * 1000)\<close> as the runtime computes it:
  the product is taken in double-precision arithmetic, whose rounding is not modelled, so
  the conversion is a parameter.
\<close>

function attempts ::
  "(rat \<Rightarrow> int) \<Rightarrow> (nat \<Rightarrow> 'e payload \<Rightarrow> AxiosError option) \<Rightarrow> 'e payload \<Rightarrow> nat \<Rightarrow>
   'e event list \<times> (webhook_error + unit)" where
  "attempts toMillis post body attempt =
     (if attempt < MAX_WEBHOOK_ATTEMPTS then
        (case post attempt body of
           None \<Rightarrow> ([Post attempt body], Inr ())
         | Some cause \<Rightarrow>
             (let st = (case status cause of None \<Rightarrow> 0 | Some v \<Rightarrow> v)
              in if st = 429 then
                   (let retryAfterSeconds = (case retry_after cause of None \<Rightarrow> 1 | Some v \<Rightarrow> v);
                        retryDelay = toMillis retryAfterSeconds;
                        rest = attempts toMillis post body (attempt + 1)
                    in (Post attempt body # Sleep retryDelay # fst rest, snd rest))
                 else if st \<ge> 500 \<and> st < 600 then
                   (let delay = 500 * (int attempt + 1);
                        rest = attempts toMillis post body (attempt + 1)
                    in (Post attempt body # Sleep delay # fst rest, snd rest))
                 else ([Post attempt body], Inl (Rejected cause))))
      else ([], Inl RetriesExhausted))"
  by pat_completeness auto
termination
  by (relation "measure (\<lambda>(toMillis, post, body, attempt). MAX_WEBHOOK_ATTEMPTS - attempt)") auto

definition sendPluginWebhook ::
  "Config \<Rightarrow> (string \<Rightarrow> string) \<Rightarrow> (IndexedPlugin \<Rightarrow> 'e) \<Rightarrow> (rat \<Rightarrow> int) \<Rightarrow>
   (nat \<Rightarrow> 'e payload \<Rightarrow> AxiosError option) \<Rightarrow> IndexedPlugin \<Rightarrow> AttachmentPayload option \<Rightarrow>
   'e event list \<times> (webhook_error + unit)" where
  "sendPluginWebhook cfg sanitize buildEmbed toMillis post plugin attachment =
     (if WEBHOOK_URL cfg = [] then ([], Inl NotConfigured)
      else
        (let embed = buildEmbed plugin;
             body =
               (case attachment of
                  None \<Rightarrow> JsonBody embed
                | Some a \<Rightarrow>
                    (let sanitizedName = sanitize (name_a a)
                     in if sanitizedName \<noteq> [] \<and> attachmentAllowed cfg a
                        then Multipart embed sanitizedName (buffer a)
                        else JsonBody embed))
         in attempts toMillis post body 0))"

section \<open>Delivery pipeline (processAllPluginsSequentially)\<close>

text \<open>
  The collaborators of the pipeline. Every effect is indexed so that each call may answer
  differently: the download and the webhook send by the position of the record in the list,
  the clock reading of a new cache entry likewise, the clock reading and the file-system
  outcome of a \<open>save\<close> by the number of saves made before it. \<open>send i plugin attachment\<close>
  is \<open>None\<close> when \<open>sendPluginWebhook\<close> resolves and the error it throws otherwise.
\<close>

record Env =
  getBinary :: "nat \<Rightarrow> string \<Rightarrow> http_error + buffer"
  sha256 :: "buffer \<Rightarrow> string"
  send :: "nat \<Rightarrow> IndexedPlugin \<Rightarrow> AttachmentPayload option \<Rightarrow> webhook_error option"
  dateNow :: "nat \<Rightarrow> string"
  saveDate :: "nat \<Rightarrow> string"
  fsOutcome :: "nat \<Rightarrow> fs_outcome"

record World =
  cache_w :: StateCache
  disk_w :: Disk
  saves_w :: nat

definition getFile :: "Env \<Rightarrow> nat \<Rightarrow> string \<Rightarrow> http_error + buffer" where
  "getFile env i rawUrl = getBinary env i (normalizeRawUrl rawUrl)"

definition saveWorld :: "Env \<Rightarrow> World \<Rightarrow> cache_error option \<times> World" where
  "saveWorld env w =
     (case save (saveDate env (saves_w w)) (fsOutcome env (saves_w w)) (disk_w w) (cache_w w) of
        (err, dsk, this) \<Rightarrow> (err, \<lparr> cache_w = this, disk_w = dsk, saves_w = Suc (saves_w w) \<rparr>))"

text \<open>\<open>s.split("/").pop()\<close>: the part of \<open>s\<close> after its last slash.\<close>

definition lastSegment :: "string \<Rightarrow> string" where
  "lastSegment s = rev (takeWhile (\<lambda>c. c \<noteq> CHR ''/'') (rev s))"

definition pendingPlugins :: "IndexedPlugin list \<Rightarrow> string set \<Rightarrow> IndexedPlugin list" where
  "pendingPlugins plugins keys =
     filter (\<lambda>plugin. truthy (raw_url (file_ref plugin)) \<and> pluginKey plugin \<notin> keys) plugins"

definition processedKeysOf :: "StateCache \<Rightarrow> string set" where
  "processedKeysOf this = set (map key (entries_of this))"

text \<open>The variables of the loop; the counters that only feed log messages are left out.\<close>

record Loop =
  world :: World
  uploaded :: nat
  processedKeys :: "string set"

text \<open>
  The parts of the loop body. \<open>download\<close> is the guarded \<open>getFile\<close> (a failed download
  leaves no buffer), \<open>attachmentNameOf\<close> the file name given to the attachment,
  \<open>safeBufferOf\<close> the size limit, and \<open>entryFor\<close> the cache entry written after a
  delivery.
\<close>

definition download :: "Config \<Rightarrow> Env \<Rightarrow> nat \<Rightarrow> string \<Rightarrow> buffer option" where
  "download cfg env i rawUrl =
     (let allowsAttachment =
            (\<not> ONLY_CS_ATTACHMENTS cfg \<or> endsWith (toLowerCase rawUrl) ''.cs'')
      in if allowsAttachment then
           (case getFile env i rawUrl of Inl err \<Rightarrow> None | Inr b \<Rightarrow> Some b)
         else None)"

definition attachmentNameOf :: "IndexedPlugin \<Rightarrow> string" where
  "attachmentNameOf plugin =
     (let nameOrDefault = (case plugin_name plugin of None \<Rightarrow> ''plugin'' | Some n \<Rightarrow> n);
          candidateName =
            (case path (file_ref plugin) of
               None \<Rightarrow> nameOrDefault
             | Some p \<Rightarrow> if p \<noteq> [] then lastSegment p else nameOrDefault)
      in if endsWith (toLowerCase candidateName) ''.cs'' then candidateName
         else candidateName @ ''.cs'')"

definition safeBufferOf :: "Config \<Rightarrow> buffer option \<Rightarrow> buffer option" where
  "safeBufferOf cfg attachmentBuffer =
     (case attachmentBuffer of
        None \<Rightarrow> None
      | Some b \<Rightarrow> if int (length b) \<le> MAX_ATTACHMENT_BYTES cfg then Some b else None)"

definition entryFor ::
  "Config \<Rightarrow> Env \<Rightarrow> nat \<Rightarrow> IndexedPlugin \<Rightarrow> string \<Rightarrow> CachedEntry" where
  "entryFor cfg env i plugin rawUrl =
     (let attachmentBuffer = download cfg env i rawUrl
      in \<lparr> key = pluginKey plugin, etag_c = None, lastModified_c = None,
           contentHash = map_option (sha256 env) attachmentBuffer,
           fileSha = sha (file_ref plugin),
           fileSize =
             nullish (map_option (\<lambda>b. int (length b)) (safeBufferOf cfg attachmentBuffer))
                     (size_f (file_ref plugin)),
           notifiedAt = dateNow env i \<rparr>)"

text \<open>
  One iteration of the \<open>for\<close> loop, for the record at position \<open>i\<close>. A \<open>save\<close> that throws is
  caught by the same \<open>catch\<close> as a failed send: the entry is then set in memory, but neither
  \<open>uploaded\<close> nor \<open>processedKeys\<close> changes.
\<close>

definition deliver :: "Config \<Rightarrow> Env \<Rightarrow> Loop \<Rightarrow> nat \<times> IndexedPlugin \<Rightarrow> Loop" where
  "deliver cfg env l ip =
     (case ip of (i, plugin) \<Rightarrow>
      (case raw_url (file_ref plugin) of
         None \<Rightarrow> l
       | Some rawUrl \<Rightarrow>
           if rawUrl = [] then l
           else if pluginKey plugin \<in> processedKeys l then l
           else
             (let safeBuffer = safeBufferOf cfg (download cfg env i rawUrl);
                  attachment =
                    map_option (\<lambda>b. \<lparr> name_a = attachmentNameOf plugin, buffer = b \<rparr>) safeBuffer
              in case send env i plugin attachment of
                   Some err \<Rightarrow> l
                 | None \<Rightarrow>
                     (let this = set_entry (entryFor cfg env i plugin rawUrl) (cache_w (world l));
                          saved = saveWorld env ((world l)\<lparr> cache_w := this \<rparr>)
                      in case fst saved of
                           Some err \<Rightarrow> l\<lparr> world := snd saved \<rparr>
                         | None \<Rightarrow>
                             l\<lparr> world := snd saved,
                                uploaded := uploaded l + 1,
                                processedKeys := insert (pluginKey plugin) (processedKeys l) \<rparr>))))"

text \<open>
  The whole run: the error of a rejected promise, if any, and the world afterwards. Only
  the two calls of \<open>save\<close> outside the loop can reject it.
\<close>

definition processAllPluginsSequentially ::
  "Config \<Rightarrow> Env \<Rightarrow> IndexedPlugin list \<Rightarrow> World \<Rightarrow> cache_error option \<times> World" where
  "processAllPluginsSequentially cfg env plugins w =
     (let keys = processedKeysOf (cache_w w);
          pending = pendingPlugins plugins keys
      in if length pending = 0 then saveWorld env w
         else
           (let l = foldl (deliver cfg env)
                      \<lparr> world = w, uploaded = 0, processedKeys = keys \<rparr>
                      (zip [0..<length plugins] plugins)
            in if uploaded l = 0 then saveWorld env (world l) else (None, world l)))"

section \<open>Example inputs\<close>

text \<open>Records with every optional property absent, and the records of the test suites.\<close>

definition noFile :: PluginFileRef where
  "noFile = \<lparr> path = None, raw_url = None, sha = None, size_f = None \<rparr>"

definition noRepo :: PluginRepoRef where
  "noRepo = \<lparr> name = None, full_name = None, html_url = None, description = None,
              stargazers_count = None, archived = None \<rparr>"

definition blankPlugin :: IndexedPlugin where
  "blankPlugin = \<lparr> plugin_name = None, plugin_author = None, plugin_version = None,
                   plugin_description = None, plugin_resource_id = None, categories = None,
                   file_ref = noFile, repository = None, extra = None \<rparr>"

definition alphaPlugin :: IndexedPlugin where
  "alphaPlugin = blankPlugin
     \<lparr> plugin_name := Some ''Alpha'',
       file_ref := noFile\<lparr> raw_url := Some ''https://example.com/alpha.cs'', path := Some ''alpha.cs'' \<rparr>,
       repository := Some (noRepo\<lparr> full_name := Some ''owner/alpha'' \<rparr>) \<rparr>"

definition betaPlugin :: IndexedPlugin where
  "betaPlugin = blankPlugin
     \<lparr> plugin_name := Some ''Beta'',
       file_ref := noFile\<lparr> raw_url := Some ''https://example.com/beta.cs'', path := Some ''beta.cs'' \<rparr>,
       repository := Some (noRepo\<lparr> full_name := Some ''owner/beta'' \<rparr>),
       extra := Some Map.empty \<rparr>"

text \<open>A record without download URL whose repository has a name but no full name.\<close>

definition repoNamePlugin :: IndexedPlugin where
  "repoNamePlugin = blankPlugin
     \<lparr> file_ref := noFile\<lparr> path := Some ''a.cs'' \<rparr>,
       repository := Some (noRepo\<lparr> name := Some ''repo'' \<rparr>) \<rparr>"

definition legacyPlugin :: IndexedPlugin where
  "legacyPlugin = blankPlugin
     \<lparr> plugin_name := Some ''Legacy'',
       plugin_version := Some ''1.0.0'',
       plugin_description := Some ''Oxide desc'',
       plugin_resource_id := Some (RidNumber 1),
       categories := Some [''oxide''],
       file_ref := noFile\<lparr> raw_url := Some ''https://example.com/plugin.cs'', path := Some ''plugin.cs'' \<rparr>,
       repository := Some (noRepo\<lparr> full_name := Some ''oxide/repo'' \<rparr>),
       extra := Some Map.empty \<rparr>"

definition enhancedPlugin :: IndexedPlugin where
  "enhancedPlugin = blankPlugin
     \<lparr> plugin_name := Some ''Enhanced'',
       plugin_author := Some ''Crawler'',
       plugin_version := Some ''2.0.0'',
       plugin_description := Some ''Crawled desc'',
       plugin_resource_id := Some (RidNumber 1),
       categories := Some [''crawled''],
       file_ref := noFile\<lparr> raw_url := Some ''https://example.com/plugin.cs'', path := Some ''src/plugin.cs'' \<rparr>,
       repository := Some (noRepo\<lparr> full_name := Some ''oxide/repo'' \<rparr>),
       extra := Some Map.empty \<rparr>"

definition catalogOf :: "IndexedPlugin list \<Rightarrow> PluginIndex" where
  "catalogOf its = \<lparr> generated_at = ''2024-01-01T00:00:00Z'', query = None,
                      count = int (length its), items = its \<rparr>"

text \<open>A clock reading, and the decimal digits of a number below ten.\<close>

definition exampleNow :: string where
  "exampleNow = ''2024-01-02T00:00:00Z''"

definition digitToString :: "int \<Rightarrow> string" where
  "digitToString n = [''0123456789'' ! nat n]"

text \<open>
  Transports for the examples: one whose every HEAD request fails and one that answers
  with an ETag, a date and a length. \<open>parseDecimal\<close> is \<open>Number.parseInt(_, 10)\<close> on
  strings that begin with a digit (and \<open>NaN\<close> on the others).
\<close>

definition headFails :: "nat \<Rightarrow> string \<Rightarrow> http_error + (string \<rightharpoonup> string)" where
  "headFails i url = Inl HttpError"

definition headAnswers :: "nat \<Rightarrow> string \<Rightarrow> http_error + (string \<rightharpoonup> string)" where
  "headAnswers i url =
     Inr [''etag'' \<mapsto> ''etag-1'', ''last-modified'' \<mapsto> ''Mon, 01 Jan 2024 00:00:00 GMT'',
          ''content-length'' \<mapsto> ''1024'', ''content-type'' \<mapsto> ''text/plain'']"

definition digitOf :: "char \<Rightarrow> int option" where
  "digitOf c = map_of (zip ''0123456789'' [0, 1, 2, 3, 4, 5, 6, 7, 8, 9]) c"

definition parseDecimal :: "string \<Rightarrow> number" where
  "parseDecimal s =
     (let ds = takeWhile (\<lambda>c. digitOf c \<noteq> None) s
      in if ds = [] then NaN
         else Num (foldl (\<lambda>acc c. 10 * acc + (case digitOf c of None \<Rightarrow> 0 | Some d \<Rightarrow> d)) 0 ds))"

definition cachedAlpha :: CachedEntry where
  "cachedAlpha = \<lparr> key = ''https://example.com/alpha.cs'', etag_c = None, lastModified_c = None,
                   contentHash = Some ''hash'', fileSha = None, fileSize = None,
                   notifiedAt = ''2024-01-02T00:00:00Z'' \<rparr>"

text \<open>
  The configuration of the test suites, an empty disk, and a webhook endpoint that answers
  the first request with a rate limit of half a second, the second with a 503 and accepts
  the third.
\<close>

definition testConfig :: Config where
  "testConfig = \<lparr> WEBHOOK_URL = ''https://discord.example/webhook'',
                  MAX_ATTACHMENT_BYTES = 1024, ONLY_CS_ATTACHMENTS = True \<rparr>"

definition emptyDisk :: Disk where
  "emptyDisk = \<lparr> canonical = Absent, temp = Absent \<rparr>"

definition titleOnly :: "IndexedPlugin \<Rightarrow> string" where
  "titleOnly p = (case plugin_name p of None \<Rightarrow> ''Plugin'' | Some n \<Rightarrow> n)"

definition busyEndpoint :: "nat \<Rightarrow> string payload \<Rightarrow> AxiosError option" where
  "busyEndpoint n body =
     (if n = 0 then Some \<lparr> status = Some 429, retry_after = Some (1 / 2) \<rparr>
      else if n = 1 then Some \<lparr> status = Some 503, retry_after = None \<rparr>
      else None)"

text \<open>
  The conversion of seconds to milliseconds on the values of the examples, one half and
  one, whose products with 1000 are exact in double precision.
\<close>

definition exactMillis :: "rat \<Rightarrow> int" where
  "exactMillis seconds = \<lceil>seconds * 1000\<rceil>"

definition keepName :: "string \<Rightarrow> string" where
  "keepName s = s"

definition alphaAttachment :: AttachmentPayload where
  "alphaAttachment = \<lparr> name_a = ''alpha.cs'', buffer = ''class Plugin {}'' \<rparr>"

text \<open>
  A run of the pipeline in which every download succeeds, the webhook send of the record
  at position 1 is rejected with status 400 and all others are delivered, and every save
  succeeds.
\<close>

definition secondSendFails :: Env where
  "secondSendFails =
     \<lparr> getBinary = (\<lambda>i url. Inr ''class Plugin {}''),
       sha256 = (\<lambda>b. ''digest of '' @ b),
       send = (\<lambda>i plugin attachment.
                 if i = 1 then Some (Rejected \<lparr> status = Some 400, retry_after = None \<rparr>) else None),
       dateNow = (\<lambda>i. ''2024-01-02T00:00:00Z''),
       saveDate = (\<lambda>n. ''2024-01-02T00:00:01Z''),
       fsOutcome = (\<lambda>n. FsOk) \<rparr>"

definition emptyWorld :: World where
  "emptyWorld = \<lparr> cache_w = newStateCache, disk_w = emptyDisk, saves_w = 0 \<rparr>"

section \<open>Key derivation: properties\<close>

lemmas example_defs = noFile_def noRepo_def blankPlugin_def alphaPlugin_def betaPlugin_def
  repoNamePlugin_def legacyPlugin_def enhancedPlugin_def catalogOf_def

text \<open>
  C2, as the code has it. The key of a record is its direct-download URL when that is
  present (a non-empty string). Otherwise it is the repository part, \<open>::\<close> and the file path,
  where the repository part is the repository's full name, or else the repository's name
  when the full name is absent, or else the placeholder \<open>repository\<close> when both are absent,
  and the file path is replaced by the placeholder \<open>file\<close> when it is absent.
\<close>

theorem pluginKey_derivation:
  "(\<forall>u. raw_url (file_ref p) = Some u \<and> u \<noteq> [] \<longrightarrow> pluginKey p = u) \<and>
   (\<not> truthy (raw_url (file_ref p)) \<longrightarrow>
      pluginKey p =
        (case repository p of
           None \<Rightarrow> ''repository''
         | Some r \<Rightarrow>
             (case full_name r of
                Some f \<Rightarrow> f
              | None \<Rightarrow> (case name r of Some n \<Rightarrow> n | None \<Rightarrow> ''repository'')))
        @ ''::'' @ (case path (file_ref p) of None \<Rightarrow> ''file'' | Some q \<Rightarrow> q))"
  by (auto simp add: pluginKey_def truthy_def nullish_def Let_def split: option.splits)

theorem pluginKey_derivation_witness:
  "pluginKey alphaPlugin = ''https://example.com/alpha.cs'' \<and>
   pluginKey blankPlugin = ''repository::file''"
  using pluginKey_derivation [of alphaPlugin] pluginKey_derivation [of blankPlugin]
  by (simp add: example_defs truthy_def)

text \<open>
  C2 as stated fails: a record without URL whose repository has no full name but has the
  name \<open>repo\<close> gets the key \<open>repo::a.cs\<close>, not \<open>repository::a.cs\<close>.
\<close>

theorem pluginKey_placeholder_counterexample:
  "raw_url (file_ref repoNamePlugin) = None \<and>
   Option.bind (repository repoNamePlugin) full_name = None \<and>
   pluginKey repoNamePlugin = ''repo::a.cs'' \<and>
   pluginKey repoNamePlugin \<noteq> ''repository::a.cs''"
  by (simp add: pluginKey_def example_defs nullish_def)

section \<open>Merge engine: properties\<close>






lemma update_skip_prefix:
  "k \<notin> fst ` set al \<Longrightarrow> AList.update k v (al @ bl) = al @ AList.update k v bl"
  by (induction al) auto

text \<open>The seeding loop from any starting map: the value of a key and the order of the keys.\<close>

lemma seed_lookup_gen:
  "map_of (foldl (\<lambda>merged plugin. AList.update (pluginKey plugin) plugin merged) m0 its) k =
     (if filter (\<lambda>p. pluginKey p = k) its = [] then map_of m0 k
      else Some (last (filter (\<lambda>p. pluginKey p = k) its)))"
  by (induction its rule: rev_induct) (simp_all add: update_conv')

lemma seed_keys_gen:
  "map fst (foldl (\<lambda>merged plugin. AList.update (pluginKey plugin) plugin merged) m0 its) =
     map fst m0 @ filter (\<lambda>k. k \<notin> fst ` set m0) (rev (remdups (rev (map pluginKey its))))"
  by (induction its rule: rev_induct) (auto simp add: update_keys)







lemma items_mergeIndices:
  "items (mergeIndices now nts oxide crawled) = map snd (mergedMap oxide crawled)"
  by (simp add: mergeIndices_def Let_def)

text \<open>
  The record that the second loop leaves under a key: the enriched records with that key,
  folded in list order into the record that the seeding left there.
\<close>

lemma mergeCrawled_lookup:
  "map_of (mergeCrawled m its) k =
     foldl (\<lambda>acc p. Some (case acc of Some existing \<Rightarrow> mergePlugin existing p | None \<Rightarrow> p))
       (map_of m k) (filter (\<lambda>p. pluginKey p = k) its)"
  unfolding mergeCrawled_def
  by (induction its rule: rev_induct) (auto simp add: mergeStep_def update_conv' Let_def)

lemma mergedMap_single_enriched:
  assumes "map_of (seedBase (items oxide)) k = Some b"
    and "filter (\<lambda>p. pluginKey p = k) (items crawled) = [e]"
  shows "map_of (mergedMap oxide crawled) k = Some (mergePlugin b e)"
  using assms by (simp add: mergedMap_def mergeCrawled_lookup)

lemma mergedMap_value_in_items:
  "map_of (mergedMap oxide crawled) k = Some m \<Longrightarrow>
   m \<in> set (items (mergeIndices now nts oxide crawled))"
  by (auto simp add: items_mergeIndices dest: map_of_SomeD intro: rev_image_eqI)

lemma mergePlugin_scalars:
  "plugin_name (mergePlugin b e) =
     (if plugin_name e = None \<or> plugin_name e = Some [] then plugin_name b else plugin_name e) \<and>
   plugin_author (mergePlugin b e) =
     (if plugin_author e = None \<or> plugin_author e = Some [] then plugin_author b
      else plugin_author e) \<and>
   plugin_version (mergePlugin b e) =
     (if plugin_version e = None \<or> plugin_version e = Some [] then plugin_version b
      else plugin_version e) \<and>
   plugin_description (mergePlugin b e) =
     (if plugin_description e = None \<or> plugin_description e = Some [] then plugin_description b
      else plugin_description e) \<and>
   plugin_resource_id (mergePlugin b e) =
     (if plugin_resource_id e = None \<or> plugin_resource_id e = Some (RidString [])
      then plugin_resource_id b else plugin_resource_id e)"
  by (simp add: mergePlugin_def mergeField_def emptyString_def emptyRid_def split: option.splits)

lemma mergePlugin_references:
  "categories (mergePlugin b e) =
     (if categories e = None \<or> categories e = Some [] then categories b else categories e) \<and>
   file_ref (mergePlugin b e) =
     (if truthy (raw_url (file_ref e)) then file_ref e else file_ref b) \<and>
   repository (mergePlugin b e) =
     (if repository e = None then repository b else repository e)"
  by (simp add: mergePlugin_def nullish_def split: option.splits list.splits)

lemma mergePlugin_extra:
  "\<exists>f. extra (mergePlugin b e) = Some f \<and>
       (\<forall>x. f x = (case spread (extra e) x of Some v \<Rightarrow> Some v | None \<Rightarrow> spread (extra b) x))"
  by (simp add: mergePlugin_def map_add_def)

text \<open>
  C4. Where the seeded map holds the base record \<open>b\<close> under a key and the enriched catalog
  has the one record \<open>e\<close> with that key, the merged catalog holds \<open>mergePlugin b e\<close> under
  it. In that record each scalar field is the enriched one unless that is absent or empty,
  and then the base one; the categories are the enriched list when it has a member, else
  the base list; the file reference is the enriched one when the enriched record declares
  a (non-empty) direct-download URL, else the base one; the repository reference is the
  enriched one when present, else the base one; and the extension map has, for every key,
  the enriched value when there is one and the base value otherwise.
\<close>

theorem mergePlugin_field_precedence:
  "(map_of (seedBase (items oxide)) k = Some b \<and>
    filter (\<lambda>p. pluginKey p = k) (items crawled) = [e] \<longrightarrow>
      map_of (mergedMap oxide crawled) k = Some (mergePlugin b e) \<and>
      mergePlugin b e \<in> set (items (mergeIndices now nts oxide crawled))) \<and>
   plugin_name (mergePlugin b e) =
     (if plugin_name e = None \<or> plugin_name e = Some [] then plugin_name b else plugin_name e) \<and>
   plugin_author (mergePlugin b e) =
     (if plugin_author e = None \<or> plugin_author e = Some [] then plugin_author b
      else plugin_author e) \<and>
   plugin_version (mergePlugin b e) =
     (if plugin_version e = None \<or> plugin_version e = Some [] then plugin_version b
      else plugin_version e) \<and>
   plugin_description (mergePlugin b e) =
     (if plugin_description e = None \<or> plugin_description e = Some [] then plugin_description b
      else plugin_description e) \<and>
   plugin_resource_id (mergePlugin b e) =
     (if plugin_resource_id e = None \<or> plugin_resource_id e = Some (RidString [])
      then plugin_resource_id b else plugin_resource_id e) \<and>
   categories (mergePlugin b e) =
     (if categories e = None \<or> categories e = Some [] then categories b else categories e) \<and>
   file_ref (mergePlugin b e) =
     (if truthy (raw_url (file_ref e)) then file_ref e else file_ref b) \<and>
   repository (mergePlugin b e) =
     (if repository e = None then repository b else repository e) \<and>
   (\<exists>f. extra (mergePlugin b e) = Some f \<and>
        (\<forall>x. f x = (case spread (extra e) x of Some v \<Rightarrow> Some v | None \<Rightarrow> spread (extra b) x)))"
proof -
  have "map_of (seedBase (items oxide)) k = Some b \<and>
    filter (\<lambda>p. pluginKey p = k) (items crawled) = [e] \<longrightarrow>
      map_of (mergedMap oxide crawled) k = Some (mergePlugin b e) \<and>
      mergePlugin b e \<in> set (items (mergeIndices now nts oxide crawled))"
    using mergedMap_single_enriched [of oxide k b crawled e]
      mergedMap_value_in_items [of oxide crawled k "mergePlugin b e" now nts]
    by blast
  then show ?thesis
    using mergePlugin_scalars [of b e] mergePlugin_references [of b e] mergePlugin_extra [of b e]
    by blast
qed

theorem mergePlugin_field_precedence_witness:
  "mergePlugin legacyPlugin enhancedPlugin
     \<in> set (items (mergeIndices exampleNow digitToString (catalogOf [legacyPlugin]) (catalogOf [enhancedPlugin]))) \<and>
   plugin_name (mergePlugin legacyPlugin enhancedPlugin) = Some ''Enhanced'' \<and>
   plugin_author (mergePlugin legacyPlugin enhancedPlugin) = Some ''Crawler'' \<and>
   categories (mergePlugin legacyPlugin enhancedPlugin) = Some [''crawled''] \<and>
   path (file_ref (mergePlugin legacyPlugin enhancedPlugin)) = Some ''src/plugin.cs'' \<and>
   plugin_author (mergePlugin enhancedPlugin legacyPlugin) = Some ''Crawler''"
proof -
  have seeded: "map_of (seedBase (items (catalogOf [legacyPlugin]))) ''https://example.com/plugin.cs''
      = Some legacyPlugin"
    by (simp add: seedBase_def pluginKey_def example_defs)
  have only: "filter (\<lambda>p. pluginKey p = ''https://example.com/plugin.cs'') (items (catalogOf [enhancedPlugin]))
      = [enhancedPlugin]"
    by (simp add: pluginKey_def example_defs)
  show ?thesis
    using seeded only
      mergePlugin_field_precedence [of "catalogOf [legacyPlugin]" "''https://example.com/plugin.cs''"
        legacyPlugin "catalogOf [enhancedPlugin]" enhancedPlugin exampleNow digitToString]
      mergePlugin_field_precedence [of "catalogOf [enhancedPlugin]" "''https://example.com/plugin.cs''"
        enhancedPlugin "catalogOf [legacyPlugin]" legacyPlugin exampleNow digitToString]
    by (simp add: example_defs truthy_def)
qed

text \<open>
  C5, as the code has it: the seeding loop overwrites, so the last writer wins. After it,
  the record held under a key is the last record of the base catalog with that key, and
  the keys stand in the order of their first occurrences.
\<close>

theorem seedBase_last_writer_wins:
  "map_of (seedBase its) k =
     (if filter (\<lambda>p. pluginKey p = k) its = [] then None
      else Some (last (filter (\<lambda>p. pluginKey p = k) its))) \<and>
   map fst (seedBase its) = rev (remdups (rev (map pluginKey its)))"
  using seed_lookup_gen [of "[]" its k] seed_keys_gen [of "[]" its]
  by (simp add: seedBase_def)

theorem seedBase_last_writer_wins_witness:
  "map_of (seedBase [legacyPlugin, betaPlugin, enhancedPlugin]) ''https://example.com/plugin.cs''
     = Some enhancedPlugin \<and>
   map fst (seedBase [legacyPlugin, betaPlugin, enhancedPlugin])
     = [''https://example.com/plugin.cs'', ''https://example.com/beta.cs'']"
  using seedBase_last_writer_wins [of "[legacyPlugin, betaPlugin, enhancedPlugin]" "''https://example.com/plugin.cs''"]
  by (simp add: pluginKey_def example_defs)

text \<open>
  C5 as stated fails: of two base records with the same key, the seeded map holds the
  later one.
\<close>

theorem seedBase_first_writer_counterexample:
  "pluginKey legacyPlugin = pluginKey enhancedPlugin \<and>
   map_of (seedBase [legacyPlugin, enhancedPlugin]) (pluginKey legacyPlugin) = Some enhancedPlugin \<and>
   map_of (seedBase [legacyPlugin, enhancedPlugin]) (pluginKey legacyPlugin) \<noteq> Some legacyPlugin"
  by (simp add: seedBase_def pluginKey_def example_defs)







section \<open>Delta engine: properties\<close>

lemma set_map_filter: "set (List.map_filter f xs) = {y. \<exists>x \<in> set xs. f x = Some y}"
  by (induction xs) (auto split: option.splits)

text \<open>The delta list holds exactly what the records' classifications produce.\<close>

lemma set_computeDelta:
  "set (computeDelta head parseInt plugins cache) =
     {d. \<exists>i < length plugins. classify (head i) parseInt cache (plugins ! i) = Some d}"
proof -
  have "zip [0..<length plugins] plugins = map (\<lambda>i. (i, plugins ! i)) [0..<length plugins]"
    by (rule nth_equalityI) simp_all
  then show ?thesis
    by (auto simp add: computeDelta_def set_map_filter)
qed

lemma classify_new:
  "cache (pluginKey p) = None \<Longrightarrow>
   classify h parseInt cache p =
     Some \<lparr> plugin_d = p, reason = New, cacheKey = pluginKey p,
            metadata = baseMetadata (probe h parseInt p) p, previous = None \<rparr>"
  by (simp add: classify_def)

lemma classify_reason_new:
  "classify h parseInt cache p = Some d \<Longrightarrow> reason d = New \<Longrightarrow>
   cache (cacheKey d) = None \<and> previous d = None \<and> \<not> requiresContentHashCheck (metadata d)"
  by (auto simp add: classify_def Let_def baseMetadata_def split: option.splits if_splits)

lemma classify_unreliable:
  assumes "cache (pluginKey p) = Some prev"
    and "\<not> truthy (etag_h (probe h parseInt p))"
    and "\<not> truthy (lastModified_h (probe h parseInt p))"
    and "\<not> truthy (sha (file_ref p))"
  shows "classify h parseInt cache p =
     Some \<lparr> plugin_d = p, reason = Updated, cacheKey = pluginKey p,
            metadata = (baseMetadata (probe h parseInt p) p)\<lparr> requiresContentHashCheck := True \<rparr>,
            previous = Some prev \<rparr>"
  using assms by (simp add: classify_def Let_def hasReliableMarkers_def baseMetadata_def)

lemma computeDelta_one: "computeDelta h pI [p] c =
   (case classify (h 0) pI c p of None \<Rightarrow> [] | Some d \<Rightarrow> [d])"
  by (simp add: computeDelta_def split: option.splits)

lemma computeDelta_two: "computeDelta h pI [p, q] c =
   (case classify (h 0) pI c p of None \<Rightarrow> [] | Some d \<Rightarrow> [d]) @
   (case classify (h 1) pI c q of None \<Rightarrow> [] | Some d \<Rightarrow> [d])"
  by (simp add: computeDelta_def upt_rec split: option.splits)

text \<open>The second test of the suite: matching metadata drops the record.\<close>

lemma computeDelta_unchanged_example:
  "computeDelta headAnswers parseDecimal [alphaPlugin]
     [''https://example.com/alpha.cs'' \<mapsto> cachedAlpha\<lparr> etag_c := Some ''etag-1'' \<rparr>] = []"
  by (simp add: computeDelta_one classify_def probe_def headMeta_def headAnswers_def
      normalizeRawUrl_def baseMetadata_def hasReliableMarkers_def unchanged_def truthy_def
      nullish_def pluginKey_def example_defs cachedAlpha_def parseDecimal_def digitOf_def)

text \<open>
  C3, as the code has it. A record that has a prior cache entry and has no current ETag,
  no current Last-Modified header and no source-reported file hash is classified
  \<open>updated\<close>, and its delta item has \<open>requiresContentHashCheck\<close> set and carries the prior
  entry. (An absent marker is one that is undefined or the empty string.)
\<close>

theorem computeDelta_unreliable_metadata:
  assumes "i < length plugins"
    and "cache (pluginKey (plugins ! i)) = Some prev"
    and "\<not> truthy (etag_h (probe (head i) parseInt (plugins ! i)))"
    and "\<not> truthy (lastModified_h (probe (head i) parseInt (plugins ! i)))"
    and "\<not> truthy (sha (file_ref (plugins ! i)))"
  shows "\<exists>d \<in> set (computeDelta head parseInt plugins cache).
           plugin_d d = plugins ! i \<and> reason d = Updated \<and>
           cacheKey d = pluginKey (plugins ! i) \<and>
           requiresContentHashCheck (metadata d) \<and> previous d = Some prev"
proof -
  let ?d = "\<lparr> plugin_d = plugins ! i, reason = Updated, cacheKey = pluginKey (plugins ! i),
            metadata = (baseMetadata (probe (head i) parseInt (plugins ! i)) (plugins ! i))
                         \<lparr> requiresContentHashCheck := True \<rparr>,
            previous = Some prev \<rparr>"
  have "classify (head i) parseInt cache (plugins ! i) = Some ?d"
    using assms(2-5) by (rule classify_unreliable)
  with assms(1) have "?d \<in> set (computeDelta head parseInt plugins cache)"
    unfolding set_computeDelta by blast
  then show ?thesis
    by (rule rev_bexI) simp
qed

theorem computeDelta_unreliable_metadata_witness:
  "\<exists>d \<in> set (computeDelta headFails parseDecimal [alphaPlugin]
                 [''https://example.com/alpha.cs'' \<mapsto> cachedAlpha]).
     plugin_d d = alphaPlugin \<and> reason d = Updated \<and>
     requiresContentHashCheck (metadata d) \<and> previous d = Some cachedAlpha"
proof -
  have cached: "pluginKey alphaPlugin = ''https://example.com/alpha.cs''"
    by (simp add: pluginKey_def example_defs)
  have probed: "probe (headFails 0) parseDecimal alphaPlugin = noMeta"
    by (simp add: probe_def headMeta_def headFails_def example_defs)
  have nosha: "sha (file_ref alphaPlugin) = None"
    by (simp add: example_defs)
  have "\<exists>d \<in> set (computeDelta headFails parseDecimal [alphaPlugin]
                 [''https://example.com/alpha.cs'' \<mapsto> cachedAlpha]).
     plugin_d d = [alphaPlugin] ! 0 \<and> reason d = Updated \<and>
     cacheKey d = pluginKey ([alphaPlugin] ! 0) \<and>
     requiresContentHashCheck (metadata d) \<and> previous d = Some cachedAlpha"
    by (rule computeDelta_unreliable_metadata)
      (simp_all add: cached probed nosha noMeta_def truthy_def)
  then show ?thesis
    by auto
qed

text \<open>
  C3 as stated fails for a record without prior cache entry: it has none of the three
  markers, yet it is classified \<open>new\<close> and its flag is false.
\<close>

theorem computeDelta_no_markers_counterexample:
  "\<not> truthy (etag_h (probe (headFails 0) parseDecimal alphaPlugin)) \<and>
   \<not> truthy (lastModified_h (probe (headFails 0) parseDecimal alphaPlugin)) \<and>
   \<not> truthy (sha (file_ref alphaPlugin)) \<and>
   computeDelta headFails parseDecimal [alphaPlugin] Map.empty =
     [\<lparr> plugin_d = alphaPlugin, reason = New, cacheKey = ''https://example.com/alpha.cs'',
        metadata = \<lparr> etag = None, lastModified = None, contentLength = None,
                     requiresContentHashCheck = False \<rparr>,
        previous = None \<rparr>]"
  by (simp add: computeDelta_one classify_def probe_def headMeta_def headFails_def noMeta_def
      baseMetadata_def truthy_def nullish_def pluginKey_def example_defs)

text \<open>
  C10. Every delta item classified \<open>new\<close> is one whose key has no prior cache entry, and
  its \<open>requiresContentHashCheck\<close> is false; and every record whose key has no prior cache
  entry gets such an item, whatever the metadata probe answers (the transport \<open>head\<close> is
  arbitrary, so it may fail) and whether or not the record has a URL to probe.
\<close>

theorem computeDelta_new_without_hash_check:
  "(\<forall>d \<in> set (computeDelta head parseInt plugins cache).
      reason d = New \<longrightarrow>
        cache (cacheKey d) = None \<and> previous d = None \<and>
        \<not> requiresContentHashCheck (metadata d)) \<and>
   (\<forall>i < length plugins.
      cache (pluginKey (plugins ! i)) = None \<longrightarrow>
        (\<exists>d \<in> set (computeDelta head parseInt plugins cache).
           plugin_d d = plugins ! i \<and> reason d = New \<and>
           \<not> requiresContentHashCheck (metadata d)))"
proof -
  have emitted: "cache (cacheKey d) = None \<and> previous d = None \<and>
        \<not> requiresContentHashCheck (metadata d)"
    if "d \<in> set (computeDelta head parseInt plugins cache)" and "reason d = New" for d
    using that unfolding set_computeDelta using classify_reason_new by blast
  have uncached: "\<exists>d \<in> set (computeDelta head parseInt plugins cache).
           plugin_d d = plugins ! i \<and> reason d = New \<and>
           \<not> requiresContentHashCheck (metadata d)"
    if i: "i < length plugins" and none: "cache (pluginKey (plugins ! i)) = None" for i
  proof -
    let ?d = "\<lparr> plugin_d = plugins ! i, reason = New, cacheKey = pluginKey (plugins ! i),
            metadata = baseMetadata (probe (head i) parseInt (plugins ! i)) (plugins ! i),
            previous = None \<rparr>"
    from none have "classify (head i) parseInt cache (plugins ! i) = Some ?d"
      by (rule classify_new)
    with i have "?d \<in> set (computeDelta head parseInt plugins cache)"
      unfolding set_computeDelta by blast
    then show ?thesis
      by (rule rev_bexI) (simp add: baseMetadata_def)
  qed
  from emitted uncached show ?thesis by blast
qed

theorem computeDelta_new_without_hash_check_witness:
  "map reason (computeDelta headFails parseDecimal [alphaPlugin, blankPlugin] Map.empty) = [New, New] \<and>
   list_all (\<lambda>d. previous d = None \<and> \<not> requiresContentHashCheck (metadata d))
     (computeDelta headFails parseDecimal [alphaPlugin, blankPlugin] Map.empty)"
proof -
  let ?ds = "computeDelta headFails parseDecimal [alphaPlugin, blankPlugin] Map.empty"
  have reasons: "map reason ?ds = [New, New]"
    by (simp add: computeDelta_two classify_def)
  have "set (map reason ?ds) = set [New, New]"
    by (simp only: reasons)
  then have "\<forall>d \<in> set ?ds. reason d = New"
    by auto
  then have "\<forall>d \<in> set ?ds. previous d = None \<and> \<not> requiresContentHashCheck (metadata d)"
    using computeDelta_new_without_hash_check [of headFails parseDecimal "[alphaPlugin, blankPlugin]" Map.empty]
    by blast
  with reasons show ?thesis
    by (simp add: list_all_iff)
qed

section \<open>State cache: properties\<close>

text \<open>Every reachable instance holds a snapshot of the configured schema version.\<close>

lemma reachable_version: "reachable this \<Longrightarrow> version (state this) = STATE_VERSION"
proof (induction rule: reachable.induct)
  case fresh
  then show ?case by (simp add: newStateCache_def EMPTY_STATE_def)
next
  case (loaded this dsk this')
  then show ?case
    by (auto simp add: load_def EMPTY_STATE_def split: if_splits sum.splits option.splits)
next
  case (entry_set this entry)
  then show ?case by (simp add: set_entry_def)
next
  case (saved this now outcome dsk err dsk' this')
  then show ?case
    by (auto simp add: save_def Let_def split: fs_outcome.splits)
next
  case (cleared this now outcome dsk err dsk' this')
  then show ?case
    by (auto simp add: clear_def save_def Let_def EMPTY_STATE_def split: fs_outcome.splits)
qed

text \<open>
  C6. \<open>load\<close> never throws: it always resolves to an instance. When the cache file is
  missing, when the stored snapshot has another version than the configured one, or when
  reading or parsing fails (also when the document is \<open>null\<close>), the instance it resolves to
  holds the empty snapshot; a stored snapshot of the configured version is taken as it is.
  It is idempotent: loading again from the same disk gives the same instance.
\<close>

theorem load_never_throws:
  "(\<exists>this'. load dsk this = Inr this') \<and>
   (canonical dsk = Absent \<longrightarrow> load dsk this = Inr (this\<lparr> state := EMPTY_STATE \<rparr>)) \<and>
   (\<forall>s. canonical dsk = Stored s \<and> version s \<noteq> STATE_VERSION \<longrightarrow>
        load dsk this = Inr (this\<lparr> state := EMPTY_STATE \<rparr>)) \<and>
   (canonical dsk = Unreadable \<or> canonical dsk = NullDocument \<longrightarrow>
        load dsk this = Inr (this\<lparr> state := EMPTY_STATE \<rparr>)) \<and>
   (\<forall>s. canonical dsk = Stored s \<and> version s = STATE_VERSION \<longrightarrow>
        load dsk this = Inr (this\<lparr> state := s \<rparr>)) \<and>
   (\<forall>this'. load dsk this = Inr this' \<longrightarrow> load dsk this' = Inr this')"
  by (cases "canonical dsk") (auto simp add: load_def pathExists_def readJson_def)

theorem load_never_throws_witness:
  "load emptyDisk newStateCache = Inr newStateCache \<and>
   load (emptyDisk\<lparr> canonical := Unreadable \<rparr>) (set_entry cachedAlpha newStateCache)
     = Inr newStateCache \<and>
   load (emptyDisk\<lparr> canonical := Stored (EMPTY_STATE\<lparr> version := 2 \<rparr>) \<rparr>) newStateCache
     = Inr newStateCache"
proof -
  have reset: "this\<lparr> state := EMPTY_STATE \<rparr> = newStateCache" for this
    by (simp add: newStateCache_def)
  have "canonical emptyDisk = Absent"
    by (simp add: emptyDisk_def)
  then have missing: "load emptyDisk newStateCache = Inr newStateCache"
    using load_never_throws [of emptyDisk newStateCache] unfolding reset by blast
  have "canonical (emptyDisk\<lparr> canonical := Unreadable \<rparr>) = Unreadable"
    by simp
  then have corrupt:
    "load (emptyDisk\<lparr> canonical := Unreadable \<rparr>) (set_entry cachedAlpha newStateCache)
       = Inr newStateCache"
    using load_never_throws [of "emptyDisk\<lparr> canonical := Unreadable \<rparr>"
        "set_entry cachedAlpha newStateCache"]
    unfolding reset by blast
  have "canonical (emptyDisk\<lparr> canonical := Stored (EMPTY_STATE\<lparr> version := 2 \<rparr>) \<rparr>)
          = Stored (EMPTY_STATE\<lparr> version := 2 \<rparr>)"
    and "version (EMPTY_STATE\<lparr> version := 2 \<rparr>) \<noteq> STATE_VERSION"
    by (simp_all add: STATE_VERSION_def)
  then have mismatch:
    "load (emptyDisk\<lparr> canonical := Stored (EMPTY_STATE\<lparr> version := 2 \<rparr>) \<rparr>) newStateCache
       = Inr newStateCache"
    using load_never_throws [of "emptyDisk\<lparr> canonical := Stored (EMPTY_STATE\<lparr> version := 2 \<rparr>) \<rparr>"
        newStateCache]
    unfolding reset by blast
  from missing corrupt mismatch show ?thesis by blast
qed

text \<open>
  C7. When a reachable instance saves successfully, \<open>load\<close> in a fresh instance resolves
  to the state of the saving instance: the same entries, hence the same set of keys, each
  mapped to an equal entry.
\<close>

theorem save_then_load:
  assumes "reachable this"
    and "save now FsOk dsk this = (err, dsk', this')"
  shows "err = None \<and>
         load dsk' newStateCache = Inr this' \<and>
         entries (state this') = entries (state this) \<and>
         fst ` set (entries (state this')) = fst ` set (entries (state this)) \<and>
         (\<forall>k. get_entry k this' = get_entry k this)"
  using assms(2) reachable_version [OF assms(1)]
  by (auto simp add: save_def load_def pathExists_def readJson_def get_entry_def Let_def
      newStateCache_def)

theorem save_then_load_witness:
  "load (fst (snd (save exampleNow FsOk emptyDisk (set_entry cachedAlpha newStateCache))))
     newStateCache
   = Inr (snd (snd (save exampleNow FsOk emptyDisk (set_entry cachedAlpha newStateCache)))) \<and>
   entries (state (snd (snd (save exampleNow FsOk emptyDisk (set_entry cachedAlpha newStateCache)))))
   = [(''https://example.com/alpha.cs'', cachedAlpha)]"
proof -
  let ?c = "set_entry cachedAlpha newStateCache"
  let ?r = "save exampleNow FsOk emptyDisk ?c"
  have r: "reachable ?c"
    by (rule reachable.entry_set) (rule reachable.fresh)
  have s: "?r = (fst ?r, fst (snd ?r), snd (snd ?r))"
    by simp
  have e: "entries (state ?c) = [(''https://example.com/alpha.cs'', cachedAlpha)]"
    by (simp add: set_entry_def newStateCache_def EMPTY_STATE_def cachedAlpha_def)
  have "load (fst (snd ?r)) newStateCache = Inr (snd (snd ?r))"
    and "entries (state (snd (snd ?r))) = entries (state ?c)"
    using save_then_load [OF r s] by (rule conjunct1 [OF conjunct2], rule conjunct1 [OF conjunct2 [OF conjunct2]])
  then show ?thesis
    by (simp only: e)
qed

section \<open>Webhook send: properties\<close>

declare attempts.simps [simp del]

lemma attempts_exhausted: "attempts toMillis post body MAX_WEBHOOK_ATTEMPTS = ([], Inl RetriesExhausted)"
  by (subst attempts.simps) simp

lemma attempts_past_ceiling:
  "\<not> attempt < MAX_WEBHOOK_ATTEMPTS \<Longrightarrow> attempts toMillis post body attempt = ([], Inl RetriesExhausted)"
  by (subst attempts.simps) simp

lemma attempts_delivered:
  "attempt < MAX_WEBHOOK_ATTEMPTS \<Longrightarrow> post attempt body = None \<Longrightarrow>
   attempts toMillis post body attempt = ([Post attempt body], Inr ())"
  by (subst attempts.simps) simp

lemma attempts_rate_limited:
  "attempt < MAX_WEBHOOK_ATTEMPTS \<Longrightarrow> post attempt body = Some cause \<Longrightarrow>
   status cause = Some 429 \<Longrightarrow>
   attempts toMillis post body attempt =
     (Post attempt body
        # Sleep (toMillis (case retry_after cause of None \<Rightarrow> 1 | Some seconds \<Rightarrow> seconds))
        # fst (attempts toMillis post body (attempt + 1)),
      snd (attempts toMillis post body (attempt + 1)))"
  by (subst attempts.simps) (simp add: Let_def)

lemma attempts_server_error:
  "attempt < MAX_WEBHOOK_ATTEMPTS \<Longrightarrow> post attempt body = Some cause \<Longrightarrow>
   status cause = Some st \<Longrightarrow> 500 \<le> st \<Longrightarrow> st < 600 \<Longrightarrow>
   attempts toMillis post body attempt =
     (Post attempt body # Sleep (500 * (int attempt + 1)) # fst (attempts toMillis post body (attempt + 1)),
      snd (attempts toMillis post body (attempt + 1)))"
  by (subst attempts.simps) (simp add: Let_def)

lemma attempts_terminal:
  "attempt < MAX_WEBHOOK_ATTEMPTS \<Longrightarrow> post attempt body = Some cause \<Longrightarrow>
   status cause = None \<or> (\<exists>st. status cause = Some st \<and> st \<noteq> 429 \<and> \<not> (500 \<le> st \<and> st < 600)) \<Longrightarrow>
   attempts toMillis post body attempt = ([Post attempt body], Inl (Rejected cause))"
  by (subst attempts.simps) (auto simp add: Let_def)

text \<open>An attempt below the ceiling posts once, and either ends the call or sleeps and goes on.\<close>

lemma attempts_step:
  assumes "attempt < MAX_WEBHOOK_ATTEMPTS"
  shows "(\<exists>r. attempts toMillis post body attempt = ([Post attempt body], r)) \<or>
         (\<exists>ms. attempts toMillis post body attempt =
            (Post attempt body # Sleep ms # fst (attempts toMillis post body (attempt + 1)),
             snd (attempts toMillis post body (attempt + 1))))"
  using assms by (subst (1 2) attempts.simps) (simp add: Let_def split: option.splits)

lemma attempts_posts_bound:
  "length (filter isPost (fst (attempts toMillis post body attempt))) \<le> MAX_WEBHOOK_ATTEMPTS - attempt"
proof (induction "MAX_WEBHOOK_ATTEMPTS - attempt" arbitrary: attempt)
  case 0
  then show ?case by (simp add: attempts_past_ceiling)
next
  case (Suc n)
  then have below: "attempt < MAX_WEBHOOK_ATTEMPTS" and "n = MAX_WEBHOOK_ATTEMPTS - (attempt + 1)"
    by simp_all
  then have "length (filter isPost (fst (attempts toMillis post body (attempt + 1)))) \<le> n"
    using Suc.hyps(1) by simp
  with attempts_step [OF below, of toMillis post body] Suc.hyps(2) show ?case
    by auto
qed

lemma sendPluginWebhook_unfold:
  "WEBHOOK_URL cfg \<noteq> [] \<Longrightarrow>
   \<exists>body. sendPluginWebhook cfg sanitize buildEmbed toMillis post plugin attachment = attempts toMillis post body 0"
  unfolding sendPluginWebhook_def Let_def by (simp, blast)

lemma sendPluginWebhook_posts_bound:
  "length (filter isPost (fst (sendPluginWebhook cfg sanitize buildEmbed toMillis post plugin attachment)))
     \<le> MAX_WEBHOOK_ATTEMPTS"
proof (cases "WEBHOOK_URL cfg = []")
  case True
  then show ?thesis by (simp add: sendPluginWebhook_def)
next
  case False
  then obtain body where "sendPluginWebhook cfg sanitize buildEmbed toMillis post plugin attachment = attempts toMillis post body 0"
    using sendPluginWebhook_unfold by blast
  then show ?thesis
    using attempts_posts_bound [of toMillis post body 0] by simp
qed

text \<open>
  C8. A call of \<open>sendPluginWebhook\<close> makes at most 5 requests; without a configured
  endpoint it fails before any, and otherwise it runs the attempts from attempt 0. At an
  attempt below the ceiling: a request that resolves ends the call; after a 429 the call
  sleeps the \<open>retry_after\<close> seconds of the response (1 second when absent), converted
  to milliseconds by the runtime's \<open>Math.ceil(_ * 1000)\<close>, and goes on with the next attempt; after a 5xx it sleeps 500 ms
  times the number of the attempt (counted from 1) and goes on with the next attempt; any
  other rejection (another status, or no response at all) is thrown to the caller with no
  further request. At attempt 5 nothing is sent and the call fails.
\<close>

theorem sendPluginWebhook_retry_protocol:
  "length (filter isPost (fst (sendPluginWebhook cfg sanitize buildEmbed toMillis post plugin attachment))) \<le> 5 \<and>
   (WEBHOOK_URL cfg = [] \<longrightarrow>
      sendPluginWebhook cfg sanitize buildEmbed toMillis post plugin attachment = ([], Inl NotConfigured)) \<and>
   (WEBHOOK_URL cfg \<noteq> [] \<longrightarrow>
      (\<exists>b. sendPluginWebhook cfg sanitize buildEmbed toMillis post plugin attachment = attempts toMillis post b 0)) \<and>
   (attempt < 5 \<and> post attempt body = None \<longrightarrow>
      attempts toMillis post body attempt = ([Post attempt body], Inr ())) \<and>
   (attempt < 5 \<and> post attempt body = Some cause \<and> status cause = Some 429 \<longrightarrow>
      attempts toMillis post body attempt =
        (Post attempt body
           # Sleep (toMillis (case retry_after cause of None \<Rightarrow> 1 | Some seconds \<Rightarrow> seconds))
           # fst (attempts toMillis post body (attempt + 1)),
         snd (attempts toMillis post body (attempt + 1)))) \<and>
   (attempt < 5 \<and> post attempt body = Some cause \<and>
    (\<exists>st. status cause = Some st \<and> 500 \<le> st \<and> st < 600) \<longrightarrow>
      attempts toMillis post body attempt =
        (Post attempt body # Sleep (500 * (int attempt + 1))
           # fst (attempts toMillis post body (attempt + 1)),
         snd (attempts toMillis post body (attempt + 1)))) \<and>
   (attempt < 5 \<and> post attempt body = Some cause \<and>
    (status cause = None \<or>
     (\<exists>st. status cause = Some st \<and> st \<noteq> 429 \<and> \<not> (500 \<le> st \<and> st < 600))) \<longrightarrow>
      attempts toMillis post body attempt = ([Post attempt body], Inl (Rejected cause))) \<and>
   attempts toMillis post body 5 = ([], Inl RetriesExhausted)"
proof -
  have five: "MAX_WEBHOOK_ATTEMPTS = 5"
    by (simp add: MAX_WEBHOOK_ATTEMPTS_def)
  have "WEBHOOK_URL cfg = [] \<longrightarrow>
      sendPluginWebhook cfg sanitize buildEmbed toMillis post plugin attachment = ([], Inl NotConfigured)"
    by (simp add: sendPluginWebhook_def)
  then show ?thesis
    using sendPluginWebhook_posts_bound [of cfg sanitize buildEmbed toMillis post plugin attachment]
      sendPluginWebhook_unfold [of cfg sanitize buildEmbed toMillis post plugin attachment]
      attempts_delivered [of attempt post body toMillis]
      attempts_rate_limited [of attempt post body cause toMillis]
      attempts_server_error [of attempt post body cause _ toMillis]
      attempts_terminal [of attempt post body cause toMillis]
      attempts_exhausted [of toMillis post body]
    unfolding five by blast
qed

theorem sendPluginWebhook_retry_protocol_witness:
  "sendPluginWebhook testConfig keepName titleOnly exactMillis busyEndpoint alphaPlugin (Some alphaAttachment) =
     ([Post 0 (Multipart ''Alpha'' ''alpha.cs'' ''class Plugin {}''), Sleep 500,
       Post 1 (Multipart ''Alpha'' ''alpha.cs'' ''class Plugin {}''), Sleep 1000,
       Post 2 (Multipart ''Alpha'' ''alpha.cs'' ''class Plugin {}'')], Inr ())"
proof -
  let ?b = "Multipart ''Alpha'' ''alpha.cs'' ''class Plugin {}''"
  let ?limited = "\<lparr> status = Some 429, retry_after = Some (1 / 2) \<rparr>"
  let ?unavailable = "\<lparr> status = Some 503, retry_after = None \<rparr>"
  have start: "sendPluginWebhook testConfig keepName titleOnly exactMillis busyEndpoint alphaPlugin
      (Some alphaAttachment) = attempts exactMillis busyEndpoint ?b 0"
    by (simp add: sendPluginWebhook_def testConfig_def keepName_def titleOnly_def
        alphaAttachment_def attachmentAllowed_def endsWith_def toLowerCase_def example_defs)
  have third: "attempts exactMillis busyEndpoint ?b 2 = ([Post 2 ?b], Inr ())"
    using sendPluginWebhook_retry_protocol [of testConfig keepName titleOnly exactMillis busyEndpoint
        alphaPlugin "Some alphaAttachment" 2 ?b]
    by (simp add: busyEndpoint_def exactMillis_def eval_nat_numeral)
  have second: "attempts exactMillis busyEndpoint ?b 1 =
      (Post 1 ?b # Sleep 1000 # fst (attempts exactMillis busyEndpoint ?b 2), snd (attempts exactMillis busyEndpoint ?b 2))"
    using sendPluginWebhook_retry_protocol [of testConfig keepName titleOnly exactMillis busyEndpoint
        alphaPlugin "Some alphaAttachment" 1 ?b ?unavailable]
    by (simp add: busyEndpoint_def exactMillis_def eval_nat_numeral)
  have first: "attempts exactMillis busyEndpoint ?b 0 =
      (Post 0 ?b # Sleep 500 # fst (attempts exactMillis busyEndpoint ?b 1), snd (attempts exactMillis busyEndpoint ?b 1))"
    using sendPluginWebhook_retry_protocol [of testConfig keepName titleOnly exactMillis busyEndpoint
        alphaPlugin "Some alphaAttachment" 0 ?b ?limited]
    by (simp add: busyEndpoint_def exactMillis_def eval_nat_numeral)
  show ?thesis
    by (simp only: start first second third fst_conv snd_conv)
qed

section \<open>Delivery pipeline: properties\<close>

lemma pluginKey_url: "raw_url (file_ref p) = Some u \<Longrightarrow> u \<noteq> [] \<Longrightarrow> pluginKey p = u"
  by (simp add: pluginKey_def Let_def)

text \<open>The iterations that leave the loop variables as they are.\<close>

lemma deliver_failure:
  assumes "raw_url (file_ref p) = Some u" and "u \<noteq> []"
    and "\<forall>a. send env i p a \<noteq> None"
  shows "deliver cfg env l (i, p) = l"
proof -
  let ?a = "map_option (\<lambda>b. \<lparr> name_a = attachmentNameOf p, buffer = b \<rparr>)
              (safeBufferOf cfg (download cfg env i u))"
  from assms(3) obtain err where "send env i p ?a = Some err"
    by blast
  then show ?thesis
    using assms(1,2) by (simp add: deliver_def Let_def)
qed

lemma deliver_cached:
  assumes "raw_url (file_ref p) = Some u" and "u \<noteq> []" and "u \<in> processedKeys l"
  shows "deliver cfg env l (i, p) = l"
  using assms by (simp add: deliver_def pluginKey_url)

lemma deliver_no_url:
  assumes "\<not> truthy (raw_url (file_ref p))"
  shows "deliver cfg env l (i, p) = l"
  using assms by (simp add: deliver_def truthy_def split: option.splits)

lemma saveWorld_ok:
  "fsOutcome env (saves_w w) = FsOk \<Longrightarrow>
   saveWorld env w =
     (None, \<lparr> cache_w = (cache_w w)\<lparr> state := (state (cache_w w))\<lparr> updatedAt := saveDate env (saves_w w) \<rparr> \<rparr>,
              disk_w = (disk_w w)\<lparr> canonical := Stored ((state (cache_w w))\<lparr> updatedAt := saveDate env (saves_w w) \<rparr>),
                                    temp := Absent \<rparr>,
              saves_w = Suc (saves_w w) \<rparr>)"
  by (simp add: saveWorld_def save_def Let_def)

text \<open>A delivered record: its entry is set and saved, and its key counts as processed.\<close>

lemma deliver_success:
  assumes "raw_url (file_ref p) = Some u" and "u \<noteq> []" and "u \<notin> processedKeys l"
    and "\<forall>a. send env i p a = None"
    and "fsOutcome env (saves_w (world l)) = FsOk"
  shows "deliver cfg env l (i, p) =
             \<lparr> world = snd (saveWorld env ((world l)\<lparr> cache_w := set_entry (entryFor cfg env i p u) (cache_w (world l)) \<rparr>)),
               uploaded = uploaded l + 1,
               processedKeys = insert u (processedKeys l) \<rparr>"
  using assms
  by (cases l) (simp add: deliver_def pluginKey_url Let_def saveWorld_ok)

lemma in_set_update: "(k, v) \<in> set (AList.update k v al)"
  by (induction al) auto

lemma set_update_subset: "set (AList.update k v al) \<subseteq> insert (k, v) (set al)"
  by (induction al) auto

lemma processedKeysOf_set_entry:
  "key e \<in> processedKeysOf (set_entry e this) \<and>
   processedKeysOf (set_entry e this) \<subseteq> insert (key e) (processedKeysOf this)"
  using in_set_update [of "key e" e "entries (state this)"]
    set_update_subset [of "key e" e "entries (state this)"]
  by (force simp add: processedKeysOf_def entries_of_def set_entry_def)

text \<open>
  C1. Take two eligible records (each with a non-empty URL that no cache entry has as its
  key) with different keys, a webhook send that succeeds for the first and throws for the
  second, and a save after the first delivery that succeeds. Then the run does not abort;
  the cache afterwards is the cache before with exactly one entry set, the entry of the
  first record under the first record's key (appended, when that key was not in the map);
  nothing is recorded for the failed record; the cache file holds the snapshot in memory; and
  the failed record, and only it, is pending for the next invocation.
\<close>

theorem failed_send_leaves_record_pending:
  assumes "raw_url (file_ref p1) = Some u1" and "u1 \<noteq> []"
    and "raw_url (file_ref p2) = Some u2" and "u2 \<noteq> []"
    and "u1 \<notin> processedKeysOf (cache_w w)" and "u2 \<notin> processedKeysOf (cache_w w)"
    and "u1 \<noteq> u2"
    and "\<forall>a. send env 0 p1 a = None"
    and "\<forall>a. send env 1 p2 a \<noteq> None"
    and "fsOutcome env (saves_w w) = FsOk"
  shows "\<exists>w'. processAllPluginsSequentially cfg env [p1, p2] w = (None, w') \<and>
           entries (state (cache_w w')) =
             AList.update u1 (entryFor cfg env 0 p1 u1) (entries (state (cache_w w))) \<and>
           key (entryFor cfg env 0 p1 u1) = u1 \<and>
           (u1 \<notin> fst ` set (entries (state (cache_w w))) \<longrightarrow>
              entries (state (cache_w w')) =
                entries (state (cache_w w)) @ [(u1, entryFor cfg env 0 p1 u1)]) \<and>
           get_entry u2 (cache_w w') = get_entry u2 (cache_w w) \<and>
           canonical (disk_w w') = Stored (state (cache_w w')) \<and>
           pendingPlugins [p1, p2] (processedKeysOf (cache_w w')) = [p2]"
proof -
  let ?keys = "processedKeysOf (cache_w w)"
  let ?l0 = "\<lparr> world = w, uploaded = 0, processedKeys = ?keys \<rparr>"
  let ?e = "entryFor cfg env 0 p1 u1"
  let ?w1 = "snd (saveWorld env (w\<lparr> cache_w := set_entry ?e (cache_w w) \<rparr>))"
  let ?l1 = "\<lparr> world = ?w1, uploaded = 1, processedKeys = insert u1 ?keys \<rparr>"
  have k1: "pluginKey p1 = u1" and k2: "pluginKey p2 = u2"
    using assms(1-4) by (simp_all add: pluginKey_url)
  have ke: "key ?e = u1"
    by (simp add: entryFor_def Let_def k1)
  have pending: "pendingPlugins [p1, p2] ?keys = [p1, p2]"
    using assms(1-6) by (simp add: pendingPlugins_def truthy_def k1 k2)
  have first: "deliver cfg env ?l0 (0, p1) = ?l1"
    using deliver_success [of p1 u1 ?l0 env 0 cfg] assms(1,2,5,8,10) by simp
  have second: "deliver cfg env ?l1 (1, p2) = ?l1"
    using assms(3,4,9) by (rule deliver_failure)
  have "zip [0..<length [p1, p2]] [p1, p2] = [(0, p1), (1, p2)]"
    by (simp add: upt_rec)
  then have loop: "foldl (deliver cfg env) ?l0 (zip [0..<length [p1, p2]] [p1, p2]) = ?l1"
    by (simp only: foldl.simps first second)
  have run: "processAllPluginsSequentially cfg env [p1, p2] w = (None, ?w1)"
    unfolding processAllPluginsSequentially_def Let_def pending loop by simp
  have w1: "?w1 = \<lparr> cache_w = (set_entry ?e (cache_w w))
                       \<lparr> state := (state (set_entry ?e (cache_w w)))\<lparr> updatedAt := saveDate env (saves_w w) \<rparr> \<rparr>,
                    disk_w = (disk_w w)\<lparr> canonical := Stored ((state (set_entry ?e (cache_w w)))\<lparr> updatedAt := saveDate env (saves_w w) \<rparr>),
                                    temp := Absent \<rparr>,
                    saves_w = Suc (saves_w w) \<rparr>"
    using assms(10) by (simp add: saveWorld_ok)
  have ents: "entries (state (cache_w ?w1)) = AList.update u1 ?e (entries (state (cache_w w)))"
    unfolding w1 by (simp add: set_entry_def ke)
  have appended: "u1 \<notin> fst ` set (entries (state (cache_w w))) \<longrightarrow>
      entries (state (cache_w ?w1)) = entries (state (cache_w w)) @ [(u1, ?e)]"
    using update_skip_prefix [of u1 "entries (state (cache_w w))" ?e "[]"] by (simp add: ents)
  have other: "get_entry u2 (cache_w ?w1) = get_entry u2 (cache_w w)"
    using assms(7) by (simp add: get_entry_def ents update_conv')
  have disk: "canonical (disk_w ?w1) = Stored (state (cache_w ?w1))"
    unfolding w1 by simp
  have keys1: "processedKeysOf (cache_w ?w1) = processedKeysOf (set_entry ?e (cache_w w))"
    unfolding w1 by (simp add: processedKeysOf_def entries_of_def)
  have "u1 \<in> processedKeysOf (cache_w ?w1)" and "u2 \<notin> processedKeysOf (cache_w ?w1)"
    using processedKeysOf_set_entry [of ?e "cache_w w"] assms(6,7) unfolding keys1 ke by auto
  then have left: "pendingPlugins [p1, p2] (processedKeysOf (cache_w ?w1)) = [p2]"
    using assms(3,4) by (simp add: pendingPlugins_def truthy_def k1 k2)
  from run ents ke appended other disk left show ?thesis
    by blast
qed

theorem failed_send_leaves_record_pending_witness:
  "fst (processAllPluginsSequentially testConfig secondSendFails [alphaPlugin, betaPlugin] emptyWorld)
     = None \<and>
   map fst (entries (state (cache_w (snd
     (processAllPluginsSequentially testConfig secondSendFails [alphaPlugin, betaPlugin] emptyWorld)))))
     = [''https://example.com/alpha.cs''] \<and>
   pendingPlugins [alphaPlugin, betaPlugin] (processedKeysOf (cache_w (snd
     (processAllPluginsSequentially testConfig secondSendFails [alphaPlugin, betaPlugin] emptyWorld))))
     = [betaPlugin]"
proof -
  let ?run = "processAllPluginsSequentially testConfig secondSendFails [alphaPlugin, betaPlugin] emptyWorld"
  have urls: "raw_url (file_ref alphaPlugin) = Some ''https://example.com/alpha.cs''"
    "raw_url (file_ref betaPlugin) = Some ''https://example.com/beta.cs''"
    by (simp_all add: example_defs)
  have fresh: "processedKeysOf (cache_w emptyWorld) = {}"
    "entries (state (cache_w emptyWorld)) = []"
    by (simp_all add: processedKeysOf_def entries_of_def emptyWorld_def newStateCache_def
        EMPTY_STATE_def)
  have sends: "\<forall>a. send secondSendFails 0 alphaPlugin a = None"
    "\<forall>a. send secondSendFails 1 betaPlugin a \<noteq> None"
    "fsOutcome secondSendFails (saves_w emptyWorld) = FsOk"
    by (simp_all add: secondSendFails_def)
  obtain w' where run: "?run = (None, w')"
    and ents: "entries (state (cache_w w')) =
      AList.update ''https://example.com/alpha.cs''
        (entryFor testConfig secondSendFails 0 alphaPlugin ''https://example.com/alpha.cs'')
        (entries (state (cache_w emptyWorld)))"
    and left: "pendingPlugins [alphaPlugin, betaPlugin] (processedKeysOf (cache_w w')) = [betaPlugin]"
    using failed_send_leaves_record_pending [OF urls(1) _ urls(2) _ _ _ _ sends, of testConfig]
    by (auto simp add: fresh)
  show ?thesis
    by (simp add: run ents left fresh)
qed

end
